theory Spec2Isabelle
  imports Main "HOL-Library.Word"
begin

section \<open>The WinHTTP WebSocket transport\<close>

text \<open>
  The source is \<^verbatim>\<open>sdk/core/azure-core/src/http/winhttp/win_http_websockets.cpp\<close>.
  The transport owns one native socket handle (\<open>m_socketHandle\<close>, a
  \<open>unique_HINTERNET\<close>) and drives four native WinHTTP calls with it. The native layer is
  not part of the repository: it is a parameter of every operation below (a record of
  functions over an arbitrary native state \<open>'w\<close>). Every effect of an operation
  (cancellation check, mutex acquisition and release, native call, handle release) is
  appended to a log in the order in which the source performs it.
\<close>

subsection \<open>Data\<close>

type_synonym HINTERNET = nat
type_synonym byte = "8 word"
type_synonym DWORD = "32 word"

text \<open>
  Modelled from the spec: the enumeration \<open>WebSocketFrameType\<close> is declared in a header
  that is not among the sources; section 6 of the specification lists its five members, and
  the source names them as below.
\<close>

datatype WebSocketFrameType =
    FrameTypeText
  | FrameTypeBinary
  | FrameTypeBinaryFragment
  | FrameTypeTextFragment
  | FrameTypeClosed

text \<open>
  Modelled from the spec: \<open>WINHTTP_WEB_SOCKET_BUFFER_TYPE\<close> is an enumeration of the native
  headers; the source names its five recognised members. The variable \<open>bufferType\<close> of
  \<open>ReceiveFrame\<close> is written by the native call and may hold any other value, which is what
  the \<open>default\<close> branch of the source is for: \<open>UNRECOGNIZED_BUFFER_TYPE n\<close> stands for it.
\<close>

datatype WINHTTP_WEB_SOCKET_BUFFER_TYPE =
    WINHTTP_WEB_SOCKET_BINARY_MESSAGE_BUFFER_TYPE
  | WINHTTP_WEB_SOCKET_BINARY_FRAGMENT_BUFFER_TYPE
  | WINHTTP_WEB_SOCKET_UTF8_MESSAGE_BUFFER_TYPE
  | WINHTTP_WEB_SOCKET_UTF8_FRAGMENT_BUFFER_TYPE
  | WINHTTP_WEB_SOCKET_CLOSE_BUFFER_TYPE
  | UNRECOGNIZED_BUFFER_TYPE nat

text \<open>
  What the operations throw. \<open>OperationCancelled\<close> is thrown by
  \<open>Context::ThrowIfCancelled\<close> (the specification's \<open>Cancelled\<close>);
  \<open>TransportException message err\<close> is what \<open>GetErrorAndThrow(message, err)\<close> throws
  (the specification's \<open>TransportError\<close>, carrying the native error code);
  \<open>runtime_error message\<close> is \<open>std::runtime_error(message)\<close>, which the source throws on an
  unknown frame type and on a close status mismatch (the specification's
  \<open>ProtocolError\<close>).
\<close>

datatype error =
    OperationCancelled
  | TransportException string DWORD
  | runtime_error string

datatype mutex = m_sendMutex | m_receiveMutex

datatype event =
    EvThrowIfCancelled
  | EvLock mutex
  | EvUnlock mutex
  | EvWebSocketClose "HINTERNET option" "16 word" "string option" DWORD
  | EvWebSocketQueryCloseStatus "HINTERNET option"
  | EvWebSocketSend "HINTERNET option" WINHTTP_WEB_SOCKET_BUFFER_TYPE "byte list" DWORD
  | EvWebSocketReceive "HINTERNET option" DWORD
  | EvReleaseHandle HINTERNET

subsection \<open>The cancellation context\<close>

text \<open>
  Modelled from the spec: \<open>Azure::Core::Context\<close> is not among the sources. Section 3: a
  context node has a parent reference, an optional deadline (an absolute time) and an
  optional cancellation flag; its effective cancellation is the most restrictive of itself
  and all its ancestors. Section 4.1: \<open>CheckCancelled\<close> fails with \<open>Cancelled\<close> when the
  effective flag is set or the effective deadline has passed, and is a no-op otherwise.
  A flag is named by a number; whether it is set, and what time it is, are read at the
  moment of the check, since another thread may cancel while a native call blocks. A
  deadline that is not in the future has passed (section 8: a deadline 0ms in the past
  cancels).
\<close>

datatype Context =
    ApplicationContext
  | ChildContext (parent: Context) (deadline: "nat option") (cancel_flag: "nat option")

fun IsCancelled :: "(nat \<Rightarrow> bool) \<Rightarrow> nat \<Rightarrow> Context \<Rightarrow> bool" where
  "IsCancelled flags time ApplicationContext = False"
| "IsCancelled flags time (ChildContext p d f) =
     ((case f of None \<Rightarrow> False | Some i \<Rightarrow> flags i)
      \<or> (case d of None \<Rightarrow> False | Some t \<Rightarrow> t \<le> time)
      \<or> IsCancelled flags time p)"

subsection \<open>The native layer\<close>

text \<open>
  What \<open>WinHttpWebSocketReceive\<close> hands back: its return value, the bytes it stored at
  the start of the caller's buffer, and the two out-parameters.
\<close>

record receive_out =
  recv_err :: DWORD
  recv_data :: "byte list"
  recv_bytes_read :: DWORD
  recv_buffer_type :: WINHTTP_WEB_SOCKET_BUFFER_TYPE

text \<open>
  What \<open>WinHttpWebSocketQueryCloseStatus\<close> hands back: its return value, the status, the
  bytes it stored in the reason buffer and the reason length.
\<close>

record query_out =
  query_err :: DWORD
  query_status :: "16 word"
  query_reason :: "byte list"
  query_reason_length :: DWORD

text \<open>
  The native calls, each from the native state and its arguments to its results and the
  next native state; the clock and the cancellation flags as they stand in a native state;
  and the two constants of the native headers that the source uses.
\<close>

record 'w winhttp =
  WinHttpWebSocketClose ::
    "'w \<Rightarrow> HINTERNET option \<Rightarrow> 16 word \<Rightarrow> string option \<Rightarrow> DWORD \<Rightarrow> DWORD \<times> 'w"
  WinHttpWebSocketQueryCloseStatus ::
    "'w \<Rightarrow> HINTERNET option \<Rightarrow> nat \<Rightarrow> query_out \<times> 'w"
  WinHttpWebSocketSend ::
    "'w \<Rightarrow> HINTERNET option \<Rightarrow> WINHTTP_WEB_SOCKET_BUFFER_TYPE \<Rightarrow> byte list \<Rightarrow> DWORD
       \<Rightarrow> DWORD \<times> 'w"
  WinHttpWebSocketReceive ::
    "'w \<Rightarrow> HINTERNET option \<Rightarrow> DWORD \<Rightarrow> receive_out \<times> 'w"
  now :: "'w \<Rightarrow> nat"
  flag_set :: "'w \<Rightarrow> nat \<Rightarrow> bool"
  ERROR_INSUFFICIENT_BUFFER :: DWORD
  WINHTTP_WEB_SOCKET_MAX_CLOSE_REASON_LENGTH :: nat

subsection \<open>The transport object\<close>

record 'w transport =
  m_socketHandle :: "HINTERNET option"
  world :: 'w
  events :: "event list"

definition emit :: "event \<Rightarrow> 'w transport \<Rightarrow> 'w transport" where
  "emit e s = s\<lparr>events := events s @ [e]\<rparr>"

text \<open>
  Modelled from the spec: \<open>Context::ThrowIfCancelled\<close> is the specification's
  \<open>CheckCancelled\<close> (section 4.1): it reads the flags and the clock as they stand, and
  throws when the context is cancelled.
\<close>

definition ThrowIfCancelled ::
  "'w winhttp \<Rightarrow> Context \<Rightarrow> 'w transport \<Rightarrow> (error + unit) \<times> 'w transport" where
  "ThrowIfCancelled api context s =
     (if IsCancelled (flag_set api (world s)) (now api (world s)) context
      then Inl OperationCancelled else Inr (),
      emit EvThrowIfCancelled s)"

text \<open>
  Modelled from the spec: \<open>GetErrorAndThrow\<close> is a member of the base transport, which is
  not among the sources. Sections 4.5 and 7: a native call that reports failure fails the
  operation with a transport error that carries the message and the native error code.
\<close>

definition GetErrorAndThrow :: "string \<Rightarrow> DWORD \<Rightarrow> error" where
  "GetErrorAndThrow message err = TransportException message err"

text \<open>\<open>std::to_string\<close> of an unsigned value: its decimal digits.\<close>

definition digit :: "nat \<Rightarrow> char" where
  "digit d = ''0123456789'' ! d"

fun to_string :: "nat \<Rightarrow> string" where
  "to_string n = (if n < 10 then [digit n] else to_string (n div 10) @ [digit (n mod 10)])"

declare to_string.simps [simp del]

text \<open>
  A native call stores bytes at the start of the caller's buffer, no more than the size
  it was given, and leaves the rest of the buffer as it was; \<open>std::vector::resize\<close>
  trims the vector or extends it with zero bytes.
\<close>

definition store :: "byte list \<Rightarrow> byte list \<Rightarrow> byte list" where
  "store written buffer = take (length buffer) written @ drop (length written) buffer"

definition resize :: "nat \<Rightarrow> byte list \<Rightarrow> byte list" where
  "resize n buffer = take n buffer @ replicate (n - length buffer) 0"

text \<open>\<open>Close\<close>: \<open>m_socketHandle.reset()\<close> releases the handle if there is one.\<close>

definition Close :: "'w transport \<Rightarrow> 'w transport" where
  "Close s =
     (case m_socketHandle s of
        None \<Rightarrow> s
      | Some h \<Rightarrow> emit (EvReleaseHandle h) (s\<lparr>m_socketHandle := None\<rparr>))"

text \<open>
  \<open>GetCloseSocketInformation\<close>: the close-acknowledgment query. The reason is the bytes of
  the zero-initialised array \<open>closeReason\<close> up to its first zero byte (when the native
  call fills the whole array the source reads past its end; here the reason ends with the
  array).
\<close>

definition GetCloseSocketInformation ::
  "'w winhttp \<Rightarrow> Context \<Rightarrow> 'w transport \<Rightarrow> (error + 16 word \<times> byte list) \<times> 'w transport" where
  "GetCloseSocketInformation api context s =
     (case ThrowIfCancelled api context s of
        (Inl e, s1) \<Rightarrow> (Inl e, s1)
      | (Inr u, s1) \<Rightarrow>
          (let closeReason = replicate (WINHTTP_WEB_SOCKET_MAX_CLOSE_REASON_LENGTH api) (0::byte);
               s2 = emit (EvLock m_receiveMutex) s1;
               (out, w) = WinHttpWebSocketQueryCloseStatus api (world s2) (m_socketHandle s2)
                            (WINHTTP_WEB_SOCKET_MAX_CLOSE_REASON_LENGTH api);
               s3 = emit (EvWebSocketQueryCloseStatus (m_socketHandle s2)) (s2\<lparr>world := w\<rparr>);
               closeReason1 = store (query_reason out) closeReason;
               s4 = emit (EvUnlock m_receiveMutex) s3
           in if query_err out \<noteq> 0
              then (Inl (GetErrorAndThrow ''WinHttpGetCloseStatus() failed'' (query_err out)), s4)
              else (Inr (query_status out, takeWhile (\<lambda>c. c \<noteq> 0) closeReason1), s4)))"

text \<open>\<open>CloseSocket\<close>: the graceful close with the status check.\<close>

definition CloseSocket ::
  "'w winhttp \<Rightarrow> 16 word \<Rightarrow> string \<Rightarrow> Context \<Rightarrow> 'w transport
     \<Rightarrow> (error + unit) \<times> 'w transport" where
  "CloseSocket api status disconnectReason context s =
     (case ThrowIfCancelled api context s of
        (Inl e, s1) \<Rightarrow> (Inl e, s1)
      | (Inr u, s1) \<Rightarrow>
          (let reason = (if disconnectReason = [] then None else Some disconnectReason);
               (err, w) = WinHttpWebSocketClose api (world s1) (m_socketHandle s1) status reason
                            (of_nat (length disconnectReason));
               s2 = emit (EvWebSocketClose (m_socketHandle s1) status reason
                            (of_nat (length disconnectReason))) (s1\<lparr>world := w\<rparr>)
           in if err \<noteq> 0
              then (Inl (GetErrorAndThrow ''WinHttpWebSocketClose() failed'' err), s2)
              else
                (case ThrowIfCancelled api context s2 of
                   (Inl e, s3) \<Rightarrow> (Inl e, s3)
                 | (Inr u, s3) \<Rightarrow>
                     (case GetCloseSocketInformation api context s3 of
                        (Inl e, s4) \<Rightarrow> (Inl e, s4)
                      | (Inr closeInformation, s4) \<Rightarrow>
                          if fst closeInformation \<noteq> status
                          then (Inl (runtime_error
                                  (''Close status mismatch, got ''
                                   @ to_string (unat (fst closeInformation))
                                   @ '' expected '' @ to_string (unat status))), s4)
                          else (Inr (), s4)))))"

text \<open>
  The \<open>switch\<close> of \<open>SendFrame\<close>: the wire buffer type of a frame type; \<open>None\<close> is its
  \<open>default\<close> branch, which throws.
\<close>

fun send_buffer_type :: "WebSocketFrameType \<Rightarrow> WINHTTP_WEB_SOCKET_BUFFER_TYPE option" where
  "send_buffer_type FrameTypeText = Some WINHTTP_WEB_SOCKET_UTF8_MESSAGE_BUFFER_TYPE"
| "send_buffer_type FrameTypeBinary = Some WINHTTP_WEB_SOCKET_BINARY_MESSAGE_BUFFER_TYPE"
| "send_buffer_type FrameTypeBinaryFragment = Some WINHTTP_WEB_SOCKET_BINARY_FRAGMENT_BUFFER_TYPE"
| "send_buffer_type FrameTypeTextFragment = Some WINHTTP_WEB_SOCKET_UTF8_FRAGMENT_BUFFER_TYPE"
| "send_buffer_type FrameTypeClosed = None"

definition SendFrame ::
  "'w winhttp \<Rightarrow> WebSocketFrameType \<Rightarrow> byte list \<Rightarrow> Context \<Rightarrow> 'w transport
     \<Rightarrow> (error + unit) \<times> 'w transport" where
  "SendFrame api frameType frameData context s =
     (case ThrowIfCancelled api context s of
        (Inl e, s1) \<Rightarrow> (Inl e, s1)
      | (Inr u, s1) \<Rightarrow>
          (case send_buffer_type frameType of
             None \<Rightarrow> (Inl (runtime_error ''Unknown frame type.''), s1)
           | Some bufferType \<Rightarrow>
               (let s2 = emit (EvLock m_sendMutex) s1;
                    (err, w) = WinHttpWebSocketSend api (world s2) (m_socketHandle s2) bufferType
                                 frameData (of_nat (length frameData));
                    s3 = emit (EvWebSocketSend (m_socketHandle s2) bufferType frameData
                                 (of_nat (length frameData))) (s2\<lparr>world := w\<rparr>);
                    s4 = emit (EvUnlock m_sendMutex) s3
                in if err \<noteq> 0
                   then (Inl (GetErrorAndThrow ''WinHttpWebSocketSend() failed'' err), s4)
                   else (Inr (), s4))))"

text \<open>
  The \<open>switch\<close> of \<open>ReceiveFrame\<close>: the frame type of a wire buffer type; \<open>None\<close> is its
  \<open>default\<close> branch, which throws.
\<close>

fun receive_frame_type :: "WINHTTP_WEB_SOCKET_BUFFER_TYPE \<Rightarrow> WebSocketFrameType option" where
  "receive_frame_type WINHTTP_WEB_SOCKET_UTF8_MESSAGE_BUFFER_TYPE = Some FrameTypeText"
| "receive_frame_type WINHTTP_WEB_SOCKET_BINARY_MESSAGE_BUFFER_TYPE = Some FrameTypeBinary"
| "receive_frame_type WINHTTP_WEB_SOCKET_BINARY_FRAGMENT_BUFFER_TYPE = Some FrameTypeBinaryFragment"
| "receive_frame_type WINHTTP_WEB_SOCKET_UTF8_FRAGMENT_BUFFER_TYPE = Some FrameTypeTextFragment"
| "receive_frame_type WINHTTP_WEB_SOCKET_CLOSE_BUFFER_TYPE = Some FrameTypeClosed"
| "receive_frame_type (UNRECOGNIZED_BUFFER_TYPE n) = None"

definition ReceiveFrame ::
  "'w winhttp \<Rightarrow> Context \<Rightarrow> 'w transport
     \<Rightarrow> (error + WebSocketFrameType \<times> byte list) \<times> 'w transport" where
  "ReceiveFrame api context s =
     (let buffer = replicate 128 (0::byte) in
      case ThrowIfCancelled api context s of
        (Inl e, s1) \<Rightarrow> (Inl e, s1)
      | (Inr u, s1) \<Rightarrow>
          (let s2 = emit (EvLock m_receiveMutex) s1;
               (out, w) = WinHttpWebSocketReceive api (world s2) (m_socketHandle s2)
                            (of_nat (length buffer));
               s3 = emit (EvWebSocketReceive (m_socketHandle s2) (of_nat (length buffer)))
                      (s2\<lparr>world := w\<rparr>);
               buffer1 = store (recv_data out) buffer;
               s4 = emit (EvUnlock m_receiveMutex) s3
           in if recv_err out \<noteq> 0 \<and> recv_err out \<noteq> ERROR_INSUFFICIENT_BUFFER api
              then (Inl (GetErrorAndThrow ''WinHttpWebSocketReceive() failed'' (recv_err out)), s4)
              else
                (let buffer2 = resize (unat (recv_bytes_read out)) buffer1 in
                 case receive_frame_type (recv_buffer_type out) of
                   None \<Rightarrow> (Inl (runtime_error ''Unknown frame type.''), s4)
                 | Some frameTypeReceived \<Rightarrow> (Inr (frameTypeReceived, buffer2), s4))))"

section \<open>Vocabulary of the properties\<close>

text \<open>
  The blocking native I/O calls of \<open>SendFrame\<close>, \<open>ReceiveFrame\<close> and the
  close-acknowledgment query, as they appear in the log.
\<close>

fun blocking_call :: "event \<Rightarrow> bool" where
  "blocking_call (EvWebSocketSend h bufferType frameData len) = True"
| "blocking_call (EvWebSocketReceive h len) = True"
| "blocking_call (EvWebSocketQueryCloseStatus h) = True"
| "blocking_call e = False"

text \<open>
  \<open>check_follows evs\<close>: in the log \<open>evs\<close>, every blocking call is immediately followed by a
  cancellation check. \<open>checks_around_calls evs\<close>: every blocking call is immediately
  preceded and immediately followed by one.
\<close>

fun check_follows :: "event list \<Rightarrow> bool" where
  "check_follows [] = True"
| "check_follows [e] = (if blocking_call e then False else True)"
| "check_follows (e # e' # es) =
     (if blocking_call e then e' = EvThrowIfCancelled \<and> check_follows (e' # es)
      else check_follows (e' # es))"

definition checks_around_calls :: "event list \<Rightarrow> bool" where
  "checks_around_calls evs = (check_follows (rev evs) \<and> check_follows evs)"

text \<open>The frames that a log passes to the native send call, oldest first.\<close>

fun sent_frames :: "event list \<Rightarrow> (WINHTTP_WEB_SOCKET_BUFFER_TYPE \<times> byte list) list" where
  "sent_frames [] = []"
| "sent_frames (EvWebSocketSend h bufferType frameData len # es) =
     (bufferType, frameData) # sent_frames es"
| "sent_frames (e # es) = sent_frames es"

text \<open>How many times a log releases a handle.\<close>

fun is_release :: "event \<Rightarrow> bool" where
  "is_release (EvReleaseHandle h) = True"
| "is_release e = False"

definition releases :: "event list \<Rightarrow> nat" where
  "releases evs = length (filter is_release evs)"

text \<open>
  The lifetime of a channel: any sequence of calls of its public operations, each
  performed on the transport as the previous call left it (an exception ends the call,
  not the channel).
\<close>

datatype call =
    CallClose
  | CallCloseSocket "16 word" string Context
  | CallGetCloseSocketInformation Context
  | CallSendFrame WebSocketFrameType "byte list" Context
  | CallReceiveFrame Context

fun perform :: "'w winhttp \<Rightarrow> call \<Rightarrow> 'w transport \<Rightarrow> 'w transport" where
  "perform api CallClose s = Close s"
| "perform api (CallCloseSocket status disconnectReason context) s =
     snd (CloseSocket api status disconnectReason context s)"
| "perform api (CallGetCloseSocketInformation context) s =
     snd (GetCloseSocketInformation api context s)"
| "perform api (CallSendFrame frameType frameData context) s =
     snd (SendFrame api frameType frameData context s)"
| "perform api (CallReceiveFrame context) s = snd (ReceiveFrame api context s)"

fun run :: "'w winhttp \<Rightarrow> call list \<Rightarrow> 'w transport \<Rightarrow> 'w transport" where
  "run api [] s = s"
| "run api (c # cs) s = run api cs (perform api c s)"

text \<open>While the transport holds a handle the log has no release; afterwards it has at most one.\<close>

definition handle_inv :: "'w transport \<Rightarrow> bool" where
  "handle_inv s =
     (case m_socketHandle s of Some h \<Rightarrow> releases (events s) = 0
      | None \<Rightarrow> releases (events s) \<le> 1)"

section \<open>A simulated native layer\<close>

text \<open>
  A small native layer on which the operations can be run on concrete inputs. Frames that
  are sent are queued and delivered again by the receive call (a loopback); a frame that
  does not fit the caller's buffer is delivered up to the buffer's size with the error
  \<open>ERROR_INSUFFICIENT_BUFFER\<close>. A close is answered with the status that was sent, or with
  \<open>sim_peer_status\<close> when the peer closes for a reason of its own. A call on a null handle
  fails with error 6. While a call on a valid handle blocks, the clock advances and another
  thread may set the cancellation flag \<open>sim_cancel_during_io\<close>.
\<close>

record sim =
  sim_clock :: nat
  sim_flags :: "nat list"
  sim_wire :: "(WINHTTP_WEB_SOCKET_BUFFER_TYPE \<times> byte list) list"
  sim_close_sent :: "16 word option"
  sim_peer_status :: "16 word option"
  sim_cancel_during_io :: "nat option"

definition sim_block :: "sim \<Rightarrow> sim" where
  "sim_block w =
     w\<lparr>sim_clock := Suc (sim_clock w),
       sim_flags := (case sim_cancel_during_io w of None \<Rightarrow> sim_flags w
                     | Some i \<Rightarrow> i # sim_flags w)\<rparr>"

definition sim_close ::
  "sim \<Rightarrow> HINTERNET option \<Rightarrow> 16 word \<Rightarrow> string option \<Rightarrow> DWORD \<Rightarrow> DWORD \<times> sim" where
  "sim_close w h status reason len =
     (case h of None \<Rightarrow> (6, w)
      | Some x \<Rightarrow> (0, sim_block (w\<lparr>sim_close_sent := Some status\<rparr>)))"

definition sim_query :: "sim \<Rightarrow> HINTERNET option \<Rightarrow> nat \<Rightarrow> query_out \<times> sim" where
  "sim_query w h capacity =
     (case h of
        None \<Rightarrow>
          (\<lparr>query_err = 6, query_status = 0, query_reason = [], query_reason_length = 0\<rparr>, w)
      | Some x \<Rightarrow>
          (case sim_close_sent w of
             None \<Rightarrow>
               (\<lparr>query_err = 5023, query_status = 0, query_reason = [],
                 query_reason_length = 0\<rparr>, w)
           | Some sent \<Rightarrow>
               (\<lparr>query_err = 0,
                 query_status = (case sim_peer_status w of None \<Rightarrow> sent | Some p \<Rightarrow> p),
                 query_reason = [], query_reason_length = 0\<rparr>, sim_block w)))"

definition sim_send ::
  "sim \<Rightarrow> HINTERNET option \<Rightarrow> WINHTTP_WEB_SOCKET_BUFFER_TYPE \<Rightarrow> byte list \<Rightarrow> DWORD
     \<Rightarrow> DWORD \<times> sim" where
  "sim_send w h bufferType frameData len =
     (case h of None \<Rightarrow> (6, w)
      | Some x \<Rightarrow> (0, sim_block (w\<lparr>sim_wire := sim_wire w @ [(bufferType, frameData)]\<rparr>)))"

definition sim_receive :: "sim \<Rightarrow> HINTERNET option \<Rightarrow> DWORD \<Rightarrow> receive_out \<times> sim" where
  "sim_receive w h capacity =
     (case h of
        None \<Rightarrow>
          (\<lparr>recv_err = 6, recv_data = [], recv_bytes_read = 0,
            recv_buffer_type = UNRECOGNIZED_BUFFER_TYPE 0\<rparr>, w)
      | Some x \<Rightarrow>
          (case sim_wire w of
             [] \<Rightarrow>
               (\<lparr>recv_err = 12030, recv_data = [], recv_bytes_read = 0,
                 recv_buffer_type = UNRECOGNIZED_BUFFER_TYPE 0\<rparr>, sim_block w)
           | (bufferType, frameData) # rest \<Rightarrow>
               if length frameData \<le> unat capacity
               then (\<lparr>recv_err = 0, recv_data = frameData,
                       recv_bytes_read = of_nat (length frameData),
                       recv_buffer_type = bufferType\<rparr>, sim_block (w\<lparr>sim_wire := rest\<rparr>))
               else (\<lparr>recv_err = 122, recv_data = take (unat capacity) frameData,
                       recv_bytes_read = capacity,
                       recv_buffer_type = bufferType\<rparr>, sim_block (w\<lparr>sim_wire := rest\<rparr>))))"

definition sim_api :: "sim winhttp" where
  "sim_api =
     \<lparr>WinHttpWebSocketClose = sim_close,
      WinHttpWebSocketQueryCloseStatus = sim_query,
      WinHttpWebSocketSend = sim_send,
      WinHttpWebSocketReceive = sim_receive,
      now = sim_clock,
      flag_set = (\<lambda>w i. i \<in> set (sim_flags w)),
      ERROR_INSUFFICIENT_BUFFER = 122,
      WINHTTP_WEB_SOCKET_MAX_CLOSE_REASON_LENGTH = 123\<rparr>"

definition sim_world :: sim where
  "sim_world =
     \<lparr>sim_clock = 10, sim_flags = [], sim_wire = [], sim_close_sent = None,
      sim_peer_status = None, sim_cancel_during_io = None\<rparr>"

text \<open>A freshly upgraded transport: it holds handle 1 and has logged nothing.\<close>

definition sim_open :: "sim \<Rightarrow> sim transport" where
  "sim_open w = \<lparr>m_socketHandle = Some 1, world = w, events = []\<rparr>"

section \<open>What each operation does\<close>

lemma IsCancelled_deadline_passed:
  "d \<le> time \<Longrightarrow> IsCancelled flags time (ChildContext p (Some d) f)"
  by simp

lemma IsCancelled_flag_set:
  "flags i \<Longrightarrow> IsCancelled flags time (ChildContext p d (Some i))"
  by simp

lemma IsCancelled_inherited:
  "IsCancelled flags time p \<Longrightarrow> IsCancelled flags time (ChildContext p d f)"
  by simp

lemma emit_simps [simp]:
  "m_socketHandle (emit e s) = m_socketHandle s"
  "world (emit e s) = world s"
  "events (emit e s) = events s @ [e]"
  by (simp_all add: emit_def)

lemma SendFrame_cancelled:
  assumes "IsCancelled (flag_set api (world s)) (now api (world s)) context"
  shows "SendFrame api frameType frameData context s
           = (Inl OperationCancelled, s\<lparr>events := events s @ [EvThrowIfCancelled]\<rparr>)"
  using assms by (simp add: SendFrame_def ThrowIfCancelled_def emit_def)

lemma SendFrame_unknown:
  assumes "\<not> IsCancelled (flag_set api (world s)) (now api (world s)) context"
    and "send_buffer_type frameType = None"
  shows "SendFrame api frameType frameData context s
           = (Inl (runtime_error ''Unknown frame type.''),
              s\<lparr>events := events s @ [EvThrowIfCancelled]\<rparr>)"
  using assms by (simp add: SendFrame_def ThrowIfCancelled_def emit_def)

lemma SendFrame_native:
  assumes "\<not> IsCancelled (flag_set api (world s)) (now api (world s)) context"
    and "send_buffer_type frameType = Some bufferType"
    and "WinHttpWebSocketSend api (world s) (m_socketHandle s) bufferType frameData
           (of_nat (length frameData)) = (err, w)"
  shows "SendFrame api frameType frameData context s
           = (if err \<noteq> 0 then Inl (TransportException ''WinHttpWebSocketSend() failed'' err)
              else Inr (),
              s\<lparr>world := w,
                events := events s @
                  [EvThrowIfCancelled, EvLock m_sendMutex,
                   EvWebSocketSend (m_socketHandle s) bufferType frameData
                     (of_nat (length frameData)),
                   EvUnlock m_sendMutex]\<rparr>)"
  using assms
  by (simp add: SendFrame_def ThrowIfCancelled_def emit_def GetErrorAndThrow_def)

lemma ReceiveFrame_cancelled:
  assumes "IsCancelled (flag_set api (world s)) (now api (world s)) context"
  shows "ReceiveFrame api context s
           = (Inl OperationCancelled, s\<lparr>events := events s @ [EvThrowIfCancelled]\<rparr>)"
  using assms by (simp add: ReceiveFrame_def ThrowIfCancelled_def emit_def)

lemma ReceiveFrame_native:
  assumes "\<not> IsCancelled (flag_set api (world s)) (now api (world s)) context"
    and "WinHttpWebSocketReceive api (world s) (m_socketHandle s) 128 = (out, w)"
  shows "ReceiveFrame api context s
           = (if recv_err out \<noteq> 0 \<and> recv_err out \<noteq> ERROR_INSUFFICIENT_BUFFER api
              then Inl (TransportException ''WinHttpWebSocketReceive() failed'' (recv_err out))
              else (case receive_frame_type (recv_buffer_type out) of
                      None \<Rightarrow> Inl (runtime_error ''Unknown frame type.'')
                    | Some frameTypeReceived \<Rightarrow>
                        Inr (frameTypeReceived,
                             resize (unat (recv_bytes_read out))
                               (store (recv_data out) (replicate 128 0)))),
              s\<lparr>world := w,
                events := events s @
                  [EvThrowIfCancelled, EvLock m_receiveMutex,
                   EvWebSocketReceive (m_socketHandle s) 128,
                   EvUnlock m_receiveMutex]\<rparr>)"
  using assms
  by (simp add: ReceiveFrame_def ThrowIfCancelled_def emit_def GetErrorAndThrow_def
      split: option.split)

lemma GetCloseSocketInformation_cancelled:
  assumes "IsCancelled (flag_set api (world s)) (now api (world s)) context"
  shows "GetCloseSocketInformation api context s
           = (Inl OperationCancelled, s\<lparr>events := events s @ [EvThrowIfCancelled]\<rparr>)"
  using assms by (simp add: GetCloseSocketInformation_def ThrowIfCancelled_def emit_def)

lemma GetCloseSocketInformation_native:
  assumes "\<not> IsCancelled (flag_set api (world s)) (now api (world s)) context"
    and "WinHttpWebSocketQueryCloseStatus api (world s) (m_socketHandle s)
           (WINHTTP_WEB_SOCKET_MAX_CLOSE_REASON_LENGTH api) = (out, w)"
  shows "GetCloseSocketInformation api context s
           = (if query_err out \<noteq> 0
              then Inl (TransportException ''WinHttpGetCloseStatus() failed'' (query_err out))
              else Inr (query_status out,
                        takeWhile (\<lambda>c. c \<noteq> 0)
                          (store (query_reason out)
                             (replicate (WINHTTP_WEB_SOCKET_MAX_CLOSE_REASON_LENGTH api) 0))),
              s\<lparr>world := w,
                events := events s @
                  [EvThrowIfCancelled, EvLock m_receiveMutex,
                   EvWebSocketQueryCloseStatus (m_socketHandle s),
                   EvUnlock m_receiveMutex]\<rparr>)"
  using assms
  by (simp add: GetCloseSocketInformation_def ThrowIfCancelled_def emit_def GetErrorAndThrow_def)

lemma CloseSocket_cancelled:
  assumes "IsCancelled (flag_set api (world s)) (now api (world s)) context"
  shows "CloseSocket api status disconnectReason context s
           = (Inl OperationCancelled, s\<lparr>events := events s @ [EvThrowIfCancelled]\<rparr>)"
  using assms by (simp add: CloseSocket_def ThrowIfCancelled_def emit_def)

lemma CloseSocket_acknowledged:
  assumes "\<not> IsCancelled (flag_set api (world s)) (now api (world s)) context"
    and "WinHttpWebSocketClose api (world s) (m_socketHandle s) status
           (if disconnectReason = [] then None else Some disconnectReason)
           (of_nat (length disconnectReason)) = (0, w1)"
    and "\<not> IsCancelled (flag_set api w1) (now api w1) context"
    and "WinHttpWebSocketQueryCloseStatus api w1 (m_socketHandle s)
           (WINHTTP_WEB_SOCKET_MAX_CLOSE_REASON_LENGTH api) = (out, w2)"
    and "query_err out = 0"
  shows "fst (CloseSocket api status disconnectReason context s)
           = (if query_status out \<noteq> status
              then Inl (runtime_error
                     (''Close status mismatch, got '' @ to_string (unat (query_status out))
                      @ '' expected '' @ to_string (unat status)))
              else Inr ())"
  using assms
  by (simp add: CloseSocket_def GetCloseSocketInformation_def ThrowIfCancelled_def emit_def)

lemma length_resize: "length (resize n buffer) = n"
  by (simp add: resize_def)

lemma resize_store_fits:
  "length written \<le> length buffer \<Longrightarrow> resize (length written) (store written buffer) = written"
  by (simp add: resize_def store_def)

lemma send_buffer_type_None:
  "(send_buffer_type frameType = None)
     = (frameType \<notin> {FrameTypeText, FrameTypeBinary, FrameTypeTextFragment,
                        FrameTypeBinaryFragment})"
  by (cases frameType) simp_all

lemma receive_frame_type_None:
  "(receive_frame_type bufferType = None)
     = (bufferType \<notin> {WINHTTP_WEB_SOCKET_UTF8_MESSAGE_BUFFER_TYPE,
                         WINHTTP_WEB_SOCKET_BINARY_MESSAGE_BUFFER_TYPE,
                         WINHTTP_WEB_SOCKET_BINARY_FRAGMENT_BUFFER_TYPE,
                         WINHTTP_WEB_SOCKET_UTF8_FRAGMENT_BUFFER_TYPE,
                         WINHTTP_WEB_SOCKET_CLOSE_BUFFER_TYPE})"
  by (cases bufferType) simp_all

lemma releases_append [simp]: "releases (xs @ ys) = releases xs + releases ys"
  by (simp add: releases_def)

lemma releases_simps [simp]:
  "releases [] = 0"
  "releases (e # es) = (if is_release e then Suc (releases es) else releases es)"
  by (simp_all add: releases_def)

lemma Close_open:
  "m_socketHandle s = Some h \<Longrightarrow>
   Close s = s\<lparr>m_socketHandle := None, events := events s @ [EvReleaseHandle h]\<rparr>"
  by (simp add: Close_def emit_def)

lemma Close_closed: "m_socketHandle s = None \<Longrightarrow> Close s = s"
  by (simp add: Close_def)

lemma Close_handle [simp]: "m_socketHandle (Close s) = None"
  by (cases "m_socketHandle s") (simp_all add: Close_def)

lemma Close_world [simp]: "world (Close s) = world s"
  by (cases "m_socketHandle s") (simp_all add: Close_def)

lemma Close_Close: "Close (Close s) = Close s"
  by (rule Close_closed) simp

text \<open>
  No operation but \<open>Close\<close> touches \<open>m_socketHandle\<close> or releases a handle.
\<close>

lemma SendFrame_keeps:
  "m_socketHandle (snd (SendFrame api frameType frameData context s)) = m_socketHandle s
   \<and> releases (events (snd (SendFrame api frameType frameData context s)))
       = releases (events s)"
  by (simp add: SendFrame_def ThrowIfCancelled_def Let_def split: option.split prod.split)

lemma ReceiveFrame_keeps:
  "m_socketHandle (snd (ReceiveFrame api context s)) = m_socketHandle s
   \<and> releases (events (snd (ReceiveFrame api context s))) = releases (events s)"
  by (simp add: ReceiveFrame_def ThrowIfCancelled_def Let_def split: option.split prod.split)

lemma GetCloseSocketInformation_keeps:
  "m_socketHandle (snd (GetCloseSocketInformation api context s)) = m_socketHandle s
   \<and> releases (events (snd (GetCloseSocketInformation api context s)))
       = releases (events s)"
  by (simp add: GetCloseSocketInformation_def ThrowIfCancelled_def Let_def
      split: option.split prod.split)

lemma CloseSocket_keeps:
  "m_socketHandle (snd (CloseSocket api status disconnectReason context s)) = m_socketHandle s
   \<and> releases (events (snd (CloseSocket api status disconnectReason context s)))
       = releases (events s)"
proof (cases "IsCancelled (flag_set api (world s)) (now api (world s)) context")
  case True
  then show ?thesis by (simp add: CloseSocket_cancelled)
next
  case False
  let ?reason = "if disconnectReason = [] then None else Some disconnectReason"
  let ?len = "of_nat (length disconnectReason) :: DWORD"
  obtain err w where c: "WinHttpWebSocketClose api (world s) (m_socketHandle s) status ?reason
      ?len = (err, w)"
    by (cases "WinHttpWebSocketClose api (world s) (m_socketHandle s) status ?reason ?len")
  let ?s2 = "emit (EvWebSocketClose (m_socketHandle s) status ?reason ?len)
               ((emit EvThrowIfCancelled s)\<lparr>world := w\<rparr>)"
  let ?s3 = "emit EvThrowIfCancelled ?s2"
  have q: "m_socketHandle (snd (GetCloseSocketInformation api context ?s3)) = m_socketHandle ?s3
     \<and> releases (events (snd (GetCloseSocketInformation api context ?s3)))
       = releases (events ?s3)"
    by (rule GetCloseSocketInformation_keeps)
  obtain r s4 where g: "GetCloseSocketInformation api context ?s3 = (r, s4)"
    by (cases "GetCloseSocketInformation api context ?s3")
  from q g have k: "m_socketHandle s4 = m_socketHandle s" "releases (events s4) = releases (events s)"
    by simp_all
  show ?thesis
    using False c g k
    by (simp add: CloseSocket_def ThrowIfCancelled_def Let_def split: sum.split)
qed

lemma perform_keeps:
  "c \<noteq> CallClose \<Longrightarrow>
   m_socketHandle (perform api c s) = m_socketHandle s
   \<and> releases (events (perform api c s)) = releases (events s)"
  by (cases c)
    (simp_all add: SendFrame_keeps ReceiveFrame_keeps GetCloseSocketInformation_keeps
      CloseSocket_keeps)

lemma perform_inv: "handle_inv s \<Longrightarrow> handle_inv (perform api c s)"
proof (cases "c = CallClose")
  case True
  assume "handle_inv s"
  then show ?thesis
    using True by (cases "m_socketHandle s") (simp_all add: handle_inv_def Close_def)
next
  case False
  assume "handle_inv s"
  then show ?thesis
    using perform_keeps [OF False, of api s] by (simp add: handle_inv_def split: option.splits)
qed

lemma run_inv: "handle_inv s \<Longrightarrow> handle_inv (run api cs s)"
  by (induction cs arbitrary: s) (simp_all add: perform_inv)

lemma handle_inv_releases: "handle_inv s \<Longrightarrow> releases (events s) \<le> 1"
  by (cases "m_socketHandle s") (simp_all add: handle_inv_def)

lemma sent_frames_append [simp]: "sent_frames (xs @ ys) = sent_frames xs @ sent_frames ys"
  by (induction xs rule: sent_frames.induct) simp_all

lemma receive_after_send:
  "send_buffer_type frameType = Some bufferType \<Longrightarrow>
   receive_frame_type bufferType = Some frameType"
  by (cases frameType) auto

text \<open>
  Whatever the native layer is: when it reports no more bytes than the staging buffer
  holds, \<open>ReceiveFrame\<close> returns no more than 128 bytes.
\<close>

lemma ReceiveFrame_within_staging_buffer:
  assumes "ReceiveFrame api context s = (Inr (frameTypeReceived, payload), s')"
    and "unat (recv_bytes_read
           (fst (WinHttpWebSocketReceive api (world s) (m_socketHandle s) 128))) \<le> 128"
  shows "length payload \<le> 128"
proof (cases "IsCancelled (flag_set api (world s)) (now api (world s)) context")
  case True
  then show ?thesis
    using assms(1) by (simp add: ReceiveFrame_cancelled)
next
  case False
  obtain out w where r: "WinHttpWebSocketReceive api (world s) (m_socketHandle s) 128 = (out, w)"
    by (cases "WinHttpWebSocketReceive api (world s) (m_socketHandle s) 128")
  from assms show ?thesis
    unfolding ReceiveFrame_native [OF False r]
    by (auto simp: r length_resize split: if_splits option.splits)
qed

section \<open>The claims\<close>

text \<open>
  Claim C1. For every close status and context: when the native close of \<open>CloseSocket\<close>
  and the close-status query after it both succeed (so both cancellation checks on the way
  passed: before the close, and after it in the world the close left), \<open>CloseSocket\<close>
  returns normally exactly when the status echoed by the peer equals the status that was
  sent; when they differ it throws the \<open>std::runtime_error\<close> (the specification's protocol
  error) whose message gives the received status and then the sent one, both in decimal.
\<close>

theorem CloseSocket_status_echo:
  assumes "\<not> IsCancelled (flag_set api (world s)) (now api (world s)) context"
    and "WinHttpWebSocketClose api (world s) (m_socketHandle s) status
           (if disconnectReason = [] then None else Some disconnectReason)
           (of_nat (length disconnectReason)) = (0, w1)"
    and "\<not> IsCancelled (flag_set api w1) (now api w1) context"
    and "WinHttpWebSocketQueryCloseStatus api w1 (m_socketHandle s)
           (WINHTTP_WEB_SOCKET_MAX_CLOSE_REASON_LENGTH api) = (out, w2)"
    and "query_err out = 0"
  shows "(fst (CloseSocket api status disconnectReason context s) = Inr ())
           = (query_status out = status)
         \<and> (query_status out \<noteq> status \<longrightarrow>
              fst (CloseSocket api status disconnectReason context s)
                = Inl (runtime_error
                    (''Close status mismatch, got '' @ to_string (unat (query_status out))
                     @ '' expected '' @ to_string (unat status))))"
  using CloseSocket_acknowledged [OF assms] by simp

theorem CloseSocket_status_echo_witness:
  "fst (CloseSocket sim_api 1000 ''bye'' ApplicationContext (sim_open sim_world)) = Inr ()
   \<and> fst (CloseSocket sim_api 1000 ''bye'' ApplicationContext
            (sim_open (sim_world\<lparr>sim_peer_status := Some 1001\<rparr>)))
       = Inl (runtime_error ''Close status mismatch, got 1001 expected 1000'')"
proof -
  let ?echo = "sim_block (sim_world\<lparr>sim_close_sent := Some 1000\<rparr>)"
  let ?w = "sim_world\<lparr>sim_peer_status := Some 1001\<rparr>"
  let ?other = "sim_block (?w\<lparr>sim_close_sent := Some 1000\<rparr>)"
  have same:
    "(fst (CloseSocket sim_api 1000 ''bye'' ApplicationContext (sim_open sim_world)) = Inr ())
       = (query_status (fst (sim_query ?echo (Some 1) 123)) = (1000 :: 16 word))"
    using CloseSocket_status_echo [of sim_api "sim_open sim_world" ApplicationContext 1000
        "''bye''" ?echo "fst (sim_query ?echo (Some 1) 123)" "snd (sim_query ?echo (Some 1) 123)"]
    by (simp add: sim_api_def sim_open_def sim_world_def sim_close_def sim_query_def
        sim_block_def)
  have differs:
    "fst (CloseSocket sim_api 1000 ''bye'' ApplicationContext (sim_open ?w))
       = Inl (runtime_error
           (''Close status mismatch, got ''
            @ to_string (unat (query_status (fst (sim_query ?other (Some 1) 123))))
            @ '' expected '' @ to_string (unat (1000 :: 16 word))))"
    using CloseSocket_status_echo [of sim_api "sim_open ?w" ApplicationContext 1000
        "''bye''" ?other "fst (sim_query ?other (Some 1) 123)" "snd (sim_query ?other (Some 1) 123)"]
    by (simp add: sim_api_def sim_open_def sim_world_def sim_close_def sim_query_def
        sim_block_def)
  show ?thesis
    using same differs
    by (simp add: sim_world_def sim_query_def sim_block_def to_string.simps digit_def)
qed

text \<open>
  Claim C2 says that in \<open>SendFrame\<close>, \<open>ReceiveFrame\<close> and the close-acknowledgment query
  the blocking native call is immediately preceded and immediately followed by a
  cancellation check, so that a cancellation requested while the call blocks is observed
  when it returns. The source has no check after any of the three calls. Below, flag 7 of
  the context is set while the native send blocks: \<open>SendFrame\<close> still returns normally,
  with a context that is cancelled by then, and in the logs of all three operations the
  native call is followed by the release of the mutex, not by a check (and preceded by the
  acquisition of the mutex).
\<close>

theorem cancellation_during_call_not_observed:
  "fst (SendFrame sim_api FrameTypeText [104, 105]
          (ChildContext ApplicationContext None (Some 7))
          (sim_open (sim_world\<lparr>sim_cancel_during_io := Some 7\<rparr>))) = Inr ()
   \<and> IsCancelled
        (flag_set sim_api (world (snd (SendFrame sim_api FrameTypeText [104, 105]
          (ChildContext ApplicationContext None (Some 7))
          (sim_open (sim_world\<lparr>sim_cancel_during_io := Some 7\<rparr>))))))
        (now sim_api (world (snd (SendFrame sim_api FrameTypeText [104, 105]
          (ChildContext ApplicationContext None (Some 7))
          (sim_open (sim_world\<lparr>sim_cancel_during_io := Some 7\<rparr>))))))
        (ChildContext ApplicationContext None (Some 7))
   \<and> events (snd (SendFrame sim_api FrameTypeText [104, 105]
          (ChildContext ApplicationContext None (Some 7))
          (sim_open (sim_world\<lparr>sim_cancel_during_io := Some 7\<rparr>))))
       = [EvThrowIfCancelled, EvLock m_sendMutex,
          EvWebSocketSend (Some 1) WINHTTP_WEB_SOCKET_UTF8_MESSAGE_BUFFER_TYPE [104, 105] 2,
          EvUnlock m_sendMutex]
   \<and> \<not> checks_around_calls (events (snd (SendFrame sim_api FrameTypeText [104, 105]
          (ChildContext ApplicationContext None (Some 7))
          (sim_open (sim_world\<lparr>sim_cancel_during_io := Some 7\<rparr>)))))
   \<and> \<not> checks_around_calls (events (snd (ReceiveFrame sim_api
          (ChildContext ApplicationContext None (Some 7))
          (sim_open (sim_world\<lparr>sim_cancel_during_io := Some 7\<rparr>)))))
   \<and> \<not> checks_around_calls (events (snd (GetCloseSocketInformation sim_api
          (ChildContext ApplicationContext None (Some 7))
          (sim_open (sim_world\<lparr>sim_cancel_during_io := Some 7\<rparr>)))))"
  by (simp add: SendFrame_def ReceiveFrame_def GetCloseSocketInformation_def
      ThrowIfCancelled_def emit_def sim_api_def sim_open_def sim_world_def sim_send_def
      sim_receive_def sim_query_def sim_block_def checks_around_calls_def)

text \<open>
  Claim C2, as the code has it. Each of \<open>SendFrame\<close>, \<open>ReceiveFrame\<close> and the
  close-acknowledgment query makes one cancellation check, on entry. When the check passes
  (and, for \<open>SendFrame\<close>, the frame type has a wire type) the operation acquires the mutex
  of its path, makes the blocking native call and releases the mutex: the check precedes
  the call with only the frame-type translation and the acquisition of the mutex in
  between, and no check follows the call.
\<close>

theorem check_before_native_call_only:
  "events (snd (SendFrame api frameType frameData context s))
     = events s @
       (if IsCancelled (flag_set api (world s)) (now api (world s)) context
        then [EvThrowIfCancelled]
        else case send_buffer_type frameType of
               None \<Rightarrow> [EvThrowIfCancelled]
             | Some bufferType \<Rightarrow>
                 [EvThrowIfCancelled, EvLock m_sendMutex,
                  EvWebSocketSend (m_socketHandle s) bufferType frameData
                    (of_nat (length frameData)),
                  EvUnlock m_sendMutex])
   \<and> events (snd (ReceiveFrame api context s))
     = events s @
       (if IsCancelled (flag_set api (world s)) (now api (world s)) context
        then [EvThrowIfCancelled]
        else [EvThrowIfCancelled, EvLock m_receiveMutex,
              EvWebSocketReceive (m_socketHandle s) 128, EvUnlock m_receiveMutex])
   \<and> events (snd (GetCloseSocketInformation api context s))
     = events s @
       (if IsCancelled (flag_set api (world s)) (now api (world s)) context
        then [EvThrowIfCancelled]
        else [EvThrowIfCancelled, EvLock m_receiveMutex,
              EvWebSocketQueryCloseStatus (m_socketHandle s), EvUnlock m_receiveMutex])"
proof -
  have send: "events (snd (SendFrame api frameType frameData context s))
     = events s @
       (if IsCancelled (flag_set api (world s)) (now api (world s)) context
        then [EvThrowIfCancelled]
        else case send_buffer_type frameType of
               None \<Rightarrow> [EvThrowIfCancelled]
             | Some bufferType \<Rightarrow>
                 [EvThrowIfCancelled, EvLock m_sendMutex,
                  EvWebSocketSend (m_socketHandle s) bufferType frameData
                    (of_nat (length frameData)),
                  EvUnlock m_sendMutex])"
    by (simp add: SendFrame_def ThrowIfCancelled_def Let_def split: option.split prod.split)
  have recv: "events (snd (ReceiveFrame api context s))
     = events s @
       (if IsCancelled (flag_set api (world s)) (now api (world s)) context
        then [EvThrowIfCancelled]
        else [EvThrowIfCancelled, EvLock m_receiveMutex,
              EvWebSocketReceive (m_socketHandle s) 128, EvUnlock m_receiveMutex])"
    by (simp add: ReceiveFrame_def ThrowIfCancelled_def Let_def split: option.split prod.split)
  have query: "events (snd (GetCloseSocketInformation api context s))
     = events s @
       (if IsCancelled (flag_set api (world s)) (now api (world s)) context
        then [EvThrowIfCancelled]
        else [EvThrowIfCancelled, EvLock m_receiveMutex,
              EvWebSocketQueryCloseStatus (m_socketHandle s), EvUnlock m_receiveMutex])"
    by (simp add: GetCloseSocketInformation_def ThrowIfCancelled_def Let_def
        split: option.split prod.split)
  show ?thesis
    using send recv query by blast
qed

theorem check_before_native_call_only_witness:
  "events (snd (SendFrame sim_api FrameTypeText [104, 105] ApplicationContext
     (sim_open sim_world)))
     = [EvThrowIfCancelled, EvLock m_sendMutex,
        EvWebSocketSend (Some 1) WINHTTP_WEB_SOCKET_UTF8_MESSAGE_BUFFER_TYPE [104, 105] 2,
        EvUnlock m_sendMutex]
   \<and> events (snd (ReceiveFrame sim_api ApplicationContext (sim_open sim_world)))
     = [EvThrowIfCancelled, EvLock m_receiveMutex, EvWebSocketReceive (Some 1) 128,
        EvUnlock m_receiveMutex]
   \<and> events (snd (GetCloseSocketInformation sim_api ApplicationContext (sim_open sim_world)))
     = [EvThrowIfCancelled, EvLock m_receiveMutex, EvWebSocketQueryCloseStatus (Some 1),
        EvUnlock m_receiveMutex]"
  using check_before_native_call_only [of sim_api FrameTypeText "[104, 105]" ApplicationContext
      "sim_open sim_world"]
  by (simp add: sim_open_def)

text \<open>
  Claim C3 says that after \<open>Close\<close> every \<open>SendFrame\<close> and \<open>ReceiveFrame\<close> fails fast with
  a channel-closed error and never passes the released handle to a native call. The source
  has no such guard: on the closed transport below both operations pass the null handle
  that \<open>Close\<close> left to the native call, and fail with the transport error of that call.
\<close>

theorem closed_channel_reaches_native_call:
  "SendFrame sim_api FrameTypeText [104, 105] ApplicationContext (Close (sim_open sim_world))
     = (Inl (TransportException ''WinHttpWebSocketSend() failed'' 6),
        \<lparr>m_socketHandle = None, world = sim_world,
         events = [EvReleaseHandle 1, EvThrowIfCancelled, EvLock m_sendMutex,
                   EvWebSocketSend None WINHTTP_WEB_SOCKET_UTF8_MESSAGE_BUFFER_TYPE [104, 105] 2,
                   EvUnlock m_sendMutex]\<rparr>)
   \<and> ReceiveFrame sim_api ApplicationContext (Close (sim_open sim_world))
     = (Inl (TransportException ''WinHttpWebSocketReceive() failed'' 6),
        \<lparr>m_socketHandle = None, world = sim_world,
         events = [EvReleaseHandle 1, EvThrowIfCancelled, EvLock m_receiveMutex,
                   EvWebSocketReceive None 128, EvUnlock m_receiveMutex]\<rparr>)"
  by (simp add: SendFrame_def ReceiveFrame_def ThrowIfCancelled_def emit_def Close_def
      GetErrorAndThrow_def sim_api_def sim_open_def sim_world_def sim_send_def sim_receive_def)

text \<open>
  Claim C3, as the code has it. After \<open>Close\<close> the handle is null. On a context that is
  not cancelled, \<open>SendFrame\<close> (for a frame type that has a wire type) and \<open>ReceiveFrame\<close>
  pass that null handle to the native send and receive calls, and their outcome is the
  outcome of the native call: the transport error with the native error code when the
  call reports a failure, and no channel-closed error of their own.
\<close>

theorem closed_channel_passes_null_handle:
  assumes "\<not> IsCancelled (flag_set api (world s)) (now api (world s)) context"
    and "send_buffer_type frameType = Some bufferType"
  shows "m_socketHandle (Close s) = None
   \<and> events (snd (SendFrame api frameType frameData context (Close s)))
       = events (Close s) @
         [EvThrowIfCancelled, EvLock m_sendMutex,
          EvWebSocketSend None bufferType frameData (of_nat (length frameData)),
          EvUnlock m_sendMutex]
   \<and> fst (SendFrame api frameType frameData context (Close s))
       = (if fst (WinHttpWebSocketSend api (world s) None bufferType frameData
                    (of_nat (length frameData))) \<noteq> 0
          then Inl (TransportException ''WinHttpWebSocketSend() failed''
                 (fst (WinHttpWebSocketSend api (world s) None bufferType frameData
                    (of_nat (length frameData)))))
          else Inr ())
   \<and> events (snd (ReceiveFrame api context (Close s)))
       = events (Close s) @
         [EvThrowIfCancelled, EvLock m_receiveMutex, EvWebSocketReceive None 128,
          EvUnlock m_receiveMutex]
   \<and> fst (ReceiveFrame api context (Close s))
       = (if recv_err (fst (WinHttpWebSocketReceive api (world s) None 128)) \<noteq> 0
             \<and> recv_err (fst (WinHttpWebSocketReceive api (world s) None 128))
                 \<noteq> ERROR_INSUFFICIENT_BUFFER api
          then Inl (TransportException ''WinHttpWebSocketReceive() failed''
                 (recv_err (fst (WinHttpWebSocketReceive api (world s) None 128))))
          else (case receive_frame_type
                       (recv_buffer_type (fst (WinHttpWebSocketReceive api (world s) None 128))) of
                  None \<Rightarrow> Inl (runtime_error ''Unknown frame type.'')
                | Some frameTypeReceived \<Rightarrow>
                    Inr (frameTypeReceived,
                         resize
                           (unat (recv_bytes_read
                              (fst (WinHttpWebSocketReceive api (world s) None 128))))
                           (store
                              (recv_data (fst (WinHttpWebSocketReceive api (world s) None 128)))
                              (replicate 128 0)))))"
proof -
  let ?c = "Close s"
  have nc: "\<not> IsCancelled (flag_set api (world ?c)) (now api (world ?c)) context"
    using assms(1) by simp
  obtain err w where n: "WinHttpWebSocketSend api (world ?c) (m_socketHandle ?c) bufferType
      frameData (of_nat (length frameData)) = (err, w)"
    by (cases "WinHttpWebSocketSend api (world ?c) (m_socketHandle ?c) bufferType
      frameData (of_nat (length frameData))")
  obtain out w' where r: "WinHttpWebSocketReceive api (world ?c) (m_socketHandle ?c) 128 = (out, w')"
    by (cases "WinHttpWebSocketReceive api (world ?c) (m_socketHandle ?c) 128")
  have n': "fst (WinHttpWebSocketSend api (world s) None bufferType frameData
      (of_nat (length frameData))) = err"
    using n by simp
  have r': "fst (WinHttpWebSocketReceive api (world s) None 128) = out"
    using r by simp
  show ?thesis
    unfolding SendFrame_native [OF nc assms(2) n] ReceiveFrame_native [OF nc r] n' r'
    by simp
qed

theorem closed_channel_passes_null_handle_witness:
  "m_socketHandle (Close (sim_open sim_world)) = None
   \<and> events (snd (SendFrame sim_api FrameTypeBinary [1, 2, 3] ApplicationContext
        (Close (sim_open sim_world))))
       = [EvReleaseHandle 1, EvThrowIfCancelled, EvLock m_sendMutex,
          EvWebSocketSend None WINHTTP_WEB_SOCKET_BINARY_MESSAGE_BUFFER_TYPE [1, 2, 3] 3,
          EvUnlock m_sendMutex]
   \<and> fst (SendFrame sim_api FrameTypeBinary [1, 2, 3] ApplicationContext
        (Close (sim_open sim_world)))
       = Inl (TransportException ''WinHttpWebSocketSend() failed'' 6)
   \<and> events (snd (ReceiveFrame sim_api ApplicationContext (Close (sim_open sim_world))))
       = [EvReleaseHandle 1, EvThrowIfCancelled, EvLock m_receiveMutex,
          EvWebSocketReceive None 128, EvUnlock m_receiveMutex]
   \<and> fst (ReceiveFrame sim_api ApplicationContext (Close (sim_open sim_world)))
       = Inl (TransportException ''WinHttpWebSocketReceive() failed'' 6)"
proof -
  have a: "\<not> IsCancelled (flag_set sim_api (world (sim_open sim_world)))
      (now sim_api (world (sim_open sim_world))) ApplicationContext"
    by simp
  have b: "send_buffer_type FrameTypeBinary = Some WINHTTP_WEB_SOCKET_BINARY_MESSAGE_BUFFER_TYPE"
    by simp
  have c: "events (Close (sim_open sim_world)) = [EvReleaseHandle 1]"
    by (simp add: Close_def sim_open_def)
  show ?thesis
    using closed_channel_passes_null_handle [OF a b, of "[1, 2, 3]"] c
    by (simp add: sim_api_def sim_open_def sim_send_def sim_receive_def)
qed

text \<open>
  Claim C4 says that for every frame type among \<open>Text\<close>, \<open>Binary\<close>, \<open>TextFragment\<close>,
  \<open>BinaryFragment\<close> and every payload, a \<open>SendFrame\<close> and a \<open>ReceiveFrame\<close> on the
  mirrored stream give back the same type and the same payload bytes. \<open>ReceiveFrame\<close>
  reads into a staging buffer of 128 bytes, once: a binary frame of 129 bytes, sent on the
  loopback, comes back as its first 128 bytes.
\<close>

theorem round_trip_fails_beyond_staging_buffer:
  "fst (SendFrame sim_api FrameTypeBinary (replicate 129 1) ApplicationContext
          (sim_open sim_world)) = Inr ()
   \<and> fst (ReceiveFrame sim_api ApplicationContext
            (snd (SendFrame sim_api FrameTypeBinary (replicate 129 1) ApplicationContext
                    (sim_open sim_world))))
       = Inr (FrameTypeBinary, replicate 128 1)
   \<and> fst (ReceiveFrame sim_api ApplicationContext
            (snd (SendFrame sim_api FrameTypeBinary (replicate 129 1) ApplicationContext
                    (sim_open sim_world))))
       \<noteq> Inr (FrameTypeBinary, replicate 129 1)"
proof -
  have shorter: "replicate 128 (1 :: byte) \<noteq> replicate 129 1"
  proof
    assume "replicate 128 (1 :: byte) = replicate 129 1"
    then have "length (replicate 128 (1 :: byte)) = length (replicate 129 (1 :: byte))"
      by (rule arg_cong)
    then show False
      by simp
  qed
  have sent: "SendFrame sim_api FrameTypeBinary (replicate 129 1) ApplicationContext
      (sim_open sim_world)
      = (Inr (),
         \<lparr>m_socketHandle = Some 1,
          world = sim_world\<lparr>sim_clock := 11,
                    sim_wire := [(WINHTTP_WEB_SOCKET_BINARY_MESSAGE_BUFFER_TYPE, replicate 129 1)]\<rparr>,
          events = [EvThrowIfCancelled, EvLock m_sendMutex,
                    EvWebSocketSend (Some 1) WINHTTP_WEB_SOCKET_BINARY_MESSAGE_BUFFER_TYPE
                      (replicate 129 1) 129,
                    EvUnlock m_sendMutex]\<rparr>)"
    by (simp add: SendFrame_def ThrowIfCancelled_def emit_def sim_api_def sim_open_def
        sim_world_def sim_send_def sim_block_def)
  have received: "fst (ReceiveFrame sim_api ApplicationContext
      (snd (SendFrame sim_api FrameTypeBinary (replicate 129 1) ApplicationContext
              (sim_open sim_world))))
      = Inr (FrameTypeBinary, replicate 128 1)"
    unfolding sent snd_conv
    by (simp add: ReceiveFrame_def ThrowIfCancelled_def emit_def sim_api_def
        sim_world_def sim_receive_def sim_block_def store_def resize_def)
  show ?thesis
    using sent received shorter by simp
qed

text \<open>
  Claim C4, as the code has it: the round trip holds for payloads of at most 128 bytes.
  For every frame type among the four and every payload of at most 128 bytes, on contexts
  that are not cancelled: \<open>SendFrame\<close> passes to the native send the wire type of the frame
  type and the payload, unchanged; \<open>ReceiveFrame\<close> classifies that wire type back to the
  same frame type; and when the native receive of the peer succeeds and delivers the frame
  that \<open>SendFrame\<close> passed on (reporting its byte count), \<open>ReceiveFrame\<close> returns the same
  frame type and the same payload bytes.
\<close>

theorem send_receive_round_trip:
  assumes "frameType \<in> {FrameTypeText, FrameTypeBinary, FrameTypeTextFragment,
                          FrameTypeBinaryFragment}"
    and "length payload \<le> 128"
    and "\<not> IsCancelled (flag_set api (world s)) (now api (world s)) context"
    and "\<not> IsCancelled (flag_set api' (world r)) (now api' (world r)) context'"
    and "WinHttpWebSocketReceive api' (world r) (m_socketHandle r) 128 = (out, w)"
    and "recv_err out = 0"
    and "(recv_buffer_type out, recv_data out)
           = last (sent_frames (events (snd (SendFrame api frameType payload context s))))"
    and "recv_bytes_read out = of_nat (length (recv_data out))"
  shows "(\<exists>bufferType. send_buffer_type frameType = Some bufferType
            \<and> receive_frame_type bufferType = Some frameType
            \<and> last (sent_frames (events (snd (SendFrame api frameType payload context s))))
                = (bufferType, payload))
         \<and> fst (ReceiveFrame api' context' r) = Inr (frameType, payload)"
proof -
  from assms(1) obtain bufferType where bt: "send_buffer_type frameType = Some bufferType"
    by (cases frameType) auto
  have inverse_ok: "receive_frame_type bufferType = Some frameType"
    by (rule receive_after_send [OF bt])
  obtain err w' where n: "WinHttpWebSocketSend api (world s) (m_socketHandle s) bufferType
      payload (of_nat (length payload)) = (err, w')"
    by (cases "WinHttpWebSocketSend api (world s) (m_socketHandle s) bufferType
      payload (of_nat (length payload))")
  have wire: "last (sent_frames (events (snd (SendFrame api frameType payload context s))))
      = (bufferType, payload)"
    by (simp add: SendFrame_native [OF assms(3) bt n])
  from assms(7) wire have delivered: "recv_buffer_type out = bufferType" "recv_data out = payload"
    by simp_all
  have "unat (of_nat (length payload) :: DWORD) = length payload"
    using assms(2) by (simp add: unat_of_nat)
  then have count: "unat (recv_bytes_read out) = length payload"
    using assms(8) delivered by simp
  have bytes: "resize (length payload) (store payload (replicate 128 0)) = payload"
    using assms(2) by (simp add: resize_store_fits)
  have "fst (ReceiveFrame api' context' r) = Inr (frameType, payload)"
    by (simp add: ReceiveFrame_native [OF assms(4,5)] assms(6) delivered inverse_ok count bytes)
  with bt inverse_ok wire show ?thesis
    by simp
qed

theorem send_receive_round_trip_witness:
  "fst (ReceiveFrame sim_api ApplicationContext
          (snd (SendFrame sim_api FrameTypeTextFragment [104, 105] ApplicationContext
                  (sim_open sim_world))))
     = Inr (FrameTypeTextFragment, [104, 105])"
proof -
  let ?s = "sim_open sim_world"
  let ?r = "snd (SendFrame sim_api FrameTypeTextFragment [104, 105] ApplicationContext ?s)"
  have sent: "SendFrame sim_api FrameTypeTextFragment [104, 105] ApplicationContext ?s
      = (Inr (),
         \<lparr>m_socketHandle = Some 1,
          world = sim_world\<lparr>sim_clock := 11,
                    sim_wire := [(WINHTTP_WEB_SOCKET_UTF8_FRAGMENT_BUFFER_TYPE, [104, 105])]\<rparr>,
          events = [EvThrowIfCancelled, EvLock m_sendMutex,
                    EvWebSocketSend (Some 1) WINHTTP_WEB_SOCKET_UTF8_FRAGMENT_BUFFER_TYPE
                      [104, 105] 2,
                    EvUnlock m_sendMutex]\<rparr>)"
    by (simp add: SendFrame_def ThrowIfCancelled_def emit_def sim_api_def sim_open_def
        sim_world_def sim_send_def sim_block_def)
  have a: "FrameTypeTextFragment \<in> {FrameTypeText, FrameTypeBinary, FrameTypeTextFragment,
      FrameTypeBinaryFragment}"
    by simp
  have b: "length [104 :: byte, 105] \<le> 128"
    by simp
  have c: "\<not> IsCancelled (flag_set sim_api (world ?s)) (now sim_api (world ?s))
      ApplicationContext"
    by simp
  have d: "\<not> IsCancelled (flag_set sim_api (world ?r)) (now sim_api (world ?r))
      ApplicationContext"
    by simp
  have e: "WinHttpWebSocketReceive sim_api (world ?r) (m_socketHandle ?r) 128
      = (\<lparr>recv_err = 0, recv_data = [104, 105], recv_bytes_read = 2,
          recv_buffer_type = WINHTTP_WEB_SOCKET_UTF8_FRAGMENT_BUFFER_TYPE\<rparr>,
         sim_world\<lparr>sim_clock := 12\<rparr>)"
    unfolding sent snd_conv
    by (simp add: sim_api_def sim_receive_def sim_block_def sim_world_def)
  have f: "last (sent_frames (events ?r)) = (WINHTTP_WEB_SOCKET_UTF8_FRAGMENT_BUFFER_TYPE, [104, 105])"
    unfolding sent snd_conv by simp
  show ?thesis
    using send_receive_round_trip [OF a b c d e] f
    by simp
qed

text \<open>
  Claim C5. The frame-type translation throws exactly on unrecognised types, in both
  directions. Once its cancellation check has passed, \<open>SendFrame\<close> throws a
  \<open>std::runtime_error\<close> (the specification's protocol error) exactly for the frame types
  outside \<open>Text\<close>, \<open>Binary\<close>, \<open>TextFragment\<close>, \<open>BinaryFragment\<close>, and it does so before
  any native send: the log gains the cancellation check and nothing else. Once its native
  receive has returned (with success or \<open>ERROR_INSUFFICIENT_BUFFER\<close>, the two outcomes after
  which the source reads the wire type), \<open>ReceiveFrame\<close> throws a \<open>std::runtime_error\<close>
  exactly for the wire buffer types outside the five recognised ones.
\<close>

theorem unknown_frame_type_errors:
  assumes "\<not> IsCancelled (flag_set api (world s)) (now api (world s)) context"
  shows "((\<exists>message. fst (SendFrame api frameType frameData context s)
                        = Inl (runtime_error message))
            = (frameType \<notin> {FrameTypeText, FrameTypeBinary, FrameTypeTextFragment,
                               FrameTypeBinaryFragment}))
         \<and> (frameType \<notin> {FrameTypeText, FrameTypeBinary, FrameTypeTextFragment,
                            FrameTypeBinaryFragment} \<longrightarrow>
              SendFrame api frameType frameData context s
                = (Inl (runtime_error ''Unknown frame type.''),
                   s\<lparr>events := events s @ [EvThrowIfCancelled]\<rparr>))
         \<and> (recv_err (fst (WinHttpWebSocketReceive api (world s) (m_socketHandle s) 128))
               \<in> {0, ERROR_INSUFFICIENT_BUFFER api} \<longrightarrow>
              ((\<exists>message. fst (ReceiveFrame api context s) = Inl (runtime_error message))
                 = (recv_buffer_type
                      (fst (WinHttpWebSocketReceive api (world s) (m_socketHandle s) 128))
                    \<notin> {WINHTTP_WEB_SOCKET_UTF8_MESSAGE_BUFFER_TYPE,
                        WINHTTP_WEB_SOCKET_BINARY_MESSAGE_BUFFER_TYPE,
                        WINHTTP_WEB_SOCKET_BINARY_FRAGMENT_BUFFER_TYPE,
                        WINHTTP_WEB_SOCKET_UTF8_FRAGMENT_BUFFER_TYPE,
                        WINHTTP_WEB_SOCKET_CLOSE_BUFFER_TYPE}))
              \<and> (recv_buffer_type
                    (fst (WinHttpWebSocketReceive api (world s) (m_socketHandle s) 128))
                  \<notin> {WINHTTP_WEB_SOCKET_UTF8_MESSAGE_BUFFER_TYPE,
                      WINHTTP_WEB_SOCKET_BINARY_MESSAGE_BUFFER_TYPE,
                      WINHTTP_WEB_SOCKET_BINARY_FRAGMENT_BUFFER_TYPE,
                      WINHTTP_WEB_SOCKET_UTF8_FRAGMENT_BUFFER_TYPE,
                      WINHTTP_WEB_SOCKET_CLOSE_BUFFER_TYPE} \<longrightarrow>
                  fst (ReceiveFrame api context s)
                    = Inl (runtime_error ''Unknown frame type.'')))"
proof -
  obtain out w where r: "WinHttpWebSocketReceive api (world s) (m_socketHandle s) 128 = (out, w)"
    by (cases "WinHttpWebSocketReceive api (world s) (m_socketHandle s) 128")
  have send: "(\<exists>message. fst (SendFrame api frameType frameData context s)
                        = Inl (runtime_error message))
                = (send_buffer_type frameType = None)"
  proof (cases "send_buffer_type frameType")
    case None
    then show ?thesis
      by (simp add: SendFrame_unknown [OF assms])
  next
    case (Some bufferType)
    obtain err w' where n: "WinHttpWebSocketSend api (world s) (m_socketHandle s) bufferType
        frameData (of_nat (length frameData)) = (err, w')"
      by (cases "WinHttpWebSocketSend api (world s) (m_socketHandle s) bufferType
        frameData (of_nat (length frameData))")
    show ?thesis
      by (simp add: SendFrame_native [OF assms Some n] Some)
  qed
  have send_state: "send_buffer_type frameType = None \<Longrightarrow>
      SendFrame api frameType frameData context s
        = (Inl (runtime_error ''Unknown frame type.''),
           s\<lparr>events := events s @ [EvThrowIfCancelled]\<rparr>)"
    by (rule SendFrame_unknown [OF assms])
  have recv: "recv_err out \<in> {0, ERROR_INSUFFICIENT_BUFFER api} \<Longrightarrow>
      fst (ReceiveFrame api context s)
      = (case receive_frame_type (recv_buffer_type out) of
           None \<Rightarrow> Inl (runtime_error ''Unknown frame type.'')
         | Some frameTypeReceived \<Rightarrow>
             Inr (frameTypeReceived,
                  resize (unat (recv_bytes_read out)) (store (recv_data out) (replicate 128 0))))"
    by (auto simp: ReceiveFrame_native [OF assms r])
  have recv_iff: "recv_err out \<in> {0, ERROR_INSUFFICIENT_BUFFER api} \<Longrightarrow>
      (\<exists>message. fst (ReceiveFrame api context s) = Inl (runtime_error message))
      = (receive_frame_type (recv_buffer_type out) = None)"
    by (simp add: recv split: option.split)
  have recv_msg: "recv_err out \<in> {0, ERROR_INSUFFICIENT_BUFFER api} \<Longrightarrow>
      receive_frame_type (recv_buffer_type out) = None \<Longrightarrow>
      fst (ReceiveFrame api context s) = Inl (runtime_error ''Unknown frame type.'')"
    by (simp add: recv)
  show ?thesis
    using send send_state recv_iff recv_msg
    unfolding send_buffer_type_None receive_frame_type_None r fst_conv by blast
qed

theorem unknown_frame_type_errors_witness:
  "SendFrame sim_api FrameTypeClosed [1, 2] ApplicationContext
     (sim_open (sim_world\<lparr>sim_wire := [(UNRECOGNIZED_BUFFER_TYPE 9, [3])]\<rparr>))
     = (Inl (runtime_error ''Unknown frame type.''),
        (sim_open (sim_world\<lparr>sim_wire := [(UNRECOGNIZED_BUFFER_TYPE 9, [3])]\<rparr>))
          \<lparr>events := [EvThrowIfCancelled]\<rparr>)
   \<and> fst (ReceiveFrame sim_api ApplicationContext
            (sim_open (sim_world\<lparr>sim_wire := [(UNRECOGNIZED_BUFFER_TYPE 9, [3])]\<rparr>)))
       = Inl (runtime_error ''Unknown frame type.'')"
proof -
  let ?w = "sim_world\<lparr>sim_wire := [(UNRECOGNIZED_BUFFER_TYPE 9, [3])]\<rparr>"
  have a: "\<not> IsCancelled (flag_set sim_api (world (sim_open ?w)))
      (now sim_api (world (sim_open ?w))) ApplicationContext"
    by simp
  have b: "fst (WinHttpWebSocketReceive sim_api (world (sim_open ?w))
      (m_socketHandle (sim_open ?w)) 128)
      = \<lparr>recv_err = 0, recv_data = [3], recv_bytes_read = 1,
         recv_buffer_type = UNRECOGNIZED_BUFFER_TYPE 9\<rparr>"
    by (simp add: sim_api_def sim_open_def sim_receive_def sim_world_def)
  show ?thesis
    using unknown_frame_type_errors [OF a, of FrameTypeClosed "[1, 2]"]
    unfolding b
    by (simp add: sim_open_def)
qed

text \<open>
  Claim C6. For every context that is cancelled when the operation starts (its effective
  deadline has passed or an effective cancellation flag is set), each of \<open>SendFrame\<close>,
  \<open>ReceiveFrame\<close> and \<open>CloseSocket\<close> fails with \<open>OperationCancelled\<close> at its first
  cancellation check: the check is the only thing the log gains, so no native call was
  made, and the handle and the native state are as they were.
\<close>

theorem cancelled_context_fails_at_first_check:
  assumes "IsCancelled (flag_set api (world s)) (now api (world s)) context"
  shows "SendFrame api frameType frameData context s
           = (Inl OperationCancelled, s\<lparr>events := events s @ [EvThrowIfCancelled]\<rparr>)
         \<and> ReceiveFrame api context s
           = (Inl OperationCancelled, s\<lparr>events := events s @ [EvThrowIfCancelled]\<rparr>)
         \<and> CloseSocket api status disconnectReason context s
           = (Inl OperationCancelled, s\<lparr>events := events s @ [EvThrowIfCancelled]\<rparr>)"
  using assms
  by (simp add: SendFrame_cancelled ReceiveFrame_cancelled CloseSocket_cancelled)

theorem cancelled_context_fails_at_first_check_witness:
  "IsCancelled (flag_set sim_api (world (sim_open sim_world)))
     (now sim_api (world (sim_open sim_world)))
     (ChildContext ApplicationContext (Some 10) None)
   \<and> SendFrame sim_api FrameTypeBinary [1, 2, 3]
       (ChildContext ApplicationContext (Some 10) None) (sim_open sim_world)
       = (Inl OperationCancelled, (sim_open sim_world)\<lparr>events := [EvThrowIfCancelled]\<rparr>)
   \<and> ReceiveFrame sim_api (ChildContext ApplicationContext (Some 10) None) (sim_open sim_world)
       = (Inl OperationCancelled, (sim_open sim_world)\<lparr>events := [EvThrowIfCancelled]\<rparr>)
   \<and> CloseSocket sim_api 1000 ''bye''
       (ChildContext ApplicationContext (Some 10) None) (sim_open sim_world)
       = (Inl OperationCancelled, (sim_open sim_world)\<lparr>events := [EvThrowIfCancelled]\<rparr>)"
proof -
  have c: "IsCancelled (flag_set sim_api (world (sim_open sim_world)))
     (now sim_api (world (sim_open sim_world)))
     (ChildContext ApplicationContext (Some 10) None)"
    by (simp add: sim_api_def sim_open_def sim_world_def)
  show ?thesis
    using c cancelled_context_fails_at_first_check [OF c, of FrameTypeBinary "[1, 2, 3]" 1000 "''bye''"]
    by (simp add: sim_open_def)
qed

text \<open>
  Claim C7. \<open>Close\<close> is idempotent and the handle is released at most once over the
  lifetime of the channel: a \<open>Close\<close> on a transport that holds a handle releases it (and
  leaves the transport without one), a \<open>Close\<close> on a transport without a handle changes
  nothing (no release; \<open>Close\<close> has no way to fail), so a second \<open>Close\<close> is a no-op;
  and whatever sequence of operations is performed on a transport whose log has no release
  yet (as it is once the upgrade has installed the handle), the log has at most one release
  afterwards.
\<close>

theorem Close_idempotent_single_release:
  "Close (Close s) = Close s
   \<and> (\<forall>h. m_socketHandle s = Some h \<longrightarrow>
          Close s = s\<lparr>m_socketHandle := None, events := events s @ [EvReleaseHandle h]\<rparr>)
   \<and> (m_socketHandle s = None \<longrightarrow> Close s = s)
   \<and> (releases (events s) = 0 \<longrightarrow> releases (events (run api calls s)) \<le> 1)"
proof -
  have "releases (events s) = 0 \<Longrightarrow> handle_inv s"
    by (cases "m_socketHandle s") (simp_all add: handle_inv_def)
  then have "releases (events s) = 0 \<Longrightarrow> releases (events (run api calls s)) \<le> 1"
    using run_inv handle_inv_releases by blast
  then show ?thesis
    by (simp add: Close_Close Close_open Close_closed)
qed

theorem Close_idempotent_single_release_witness:
  "Close (Close (sim_open sim_world)) = Close (sim_open sim_world)
   \<and> Close (sim_open sim_world)
       = \<lparr>m_socketHandle = None, world = sim_world, events = [EvReleaseHandle 1]\<rparr>
   \<and> releases (events (run sim_api
         [CallSendFrame FrameTypeText [104, 105] ApplicationContext, CallClose,
          CallReceiveFrame ApplicationContext, CallClose]
         (sim_open sim_world))) \<le> 1"
  using Close_idempotent_single_release [of "sim_open sim_world" sim_api
      "[CallSendFrame FrameTypeText [104, 105] ApplicationContext, CallClose,
        CallReceiveFrame ApplicationContext, CallClose]"]
  by (simp add: sim_open_def Close_def emit_def)

text \<open>
  Claim C8. Whenever \<open>ReceiveFrame\<close> returns normally, the length of the payload it returns
  is the byte count that its native receive call (on the 128 byte staging buffer) reported.
\<close>

theorem ReceiveFrame_payload_length:
  assumes "ReceiveFrame api context s = (Inr (frameTypeReceived, payload), s')"
  shows "length payload
           = unat (recv_bytes_read
               (fst (WinHttpWebSocketReceive api (world s) (m_socketHandle s) 128)))"
proof (cases "IsCancelled (flag_set api (world s)) (now api (world s)) context")
  case True
  then show ?thesis
    using assms by (simp add: ReceiveFrame_cancelled)
next
  case False
  obtain out w where r: "WinHttpWebSocketReceive api (world s) (m_socketHandle s) 128 = (out, w)"
    by (cases "WinHttpWebSocketReceive api (world s) (m_socketHandle s) 128")
  from assms show ?thesis
    unfolding ReceiveFrame_native [OF False r]
    by (auto simp: r length_resize split: if_splits option.splits)
qed

theorem ReceiveFrame_payload_length_witness:
  "ReceiveFrame sim_api ApplicationContext
     (sim_open (sim_world\<lparr>sim_wire := [(WINHTTP_WEB_SOCKET_UTF8_MESSAGE_BUFFER_TYPE, [104, 105])]\<rparr>))
     = (Inr (FrameTypeText, [104, 105]),
        \<lparr>m_socketHandle = Some 1,
         world = sim_world\<lparr>sim_clock := 11\<rparr>,
         events = [EvThrowIfCancelled, EvLock m_receiveMutex, EvWebSocketReceive (Some 1) 128,
                   EvUnlock m_receiveMutex]\<rparr>)
   \<and> length [104 :: byte, 105]
       = unat (recv_bytes_read (fst (WinHttpWebSocketReceive sim_api
           (sim_world\<lparr>sim_wire := [(WINHTTP_WEB_SOCKET_UTF8_MESSAGE_BUFFER_TYPE, [104, 105])]\<rparr>)
           (Some 1) 128)))"
proof -
  let ?s = "sim_open (sim_world\<lparr>sim_wire := [(WINHTTP_WEB_SOCKET_UTF8_MESSAGE_BUFFER_TYPE, [104, 105])]\<rparr>)"
  have run: "ReceiveFrame sim_api ApplicationContext ?s
     = (Inr (FrameTypeText, [104, 105]),
        \<lparr>m_socketHandle = Some 1,
         world = sim_world\<lparr>sim_clock := 11\<rparr>,
         events = [EvThrowIfCancelled, EvLock m_receiveMutex, EvWebSocketReceive (Some 1) 128,
                   EvUnlock m_receiveMutex]\<rparr>)"
    by (simp add: ReceiveFrame_def ThrowIfCancelled_def emit_def sim_api_def sim_open_def
        sim_world_def sim_receive_def sim_block_def store_def resize_def)
  show ?thesis
    using run ReceiveFrame_payload_length [OF run]
    by (simp add: sim_open_def)
qed

text \<open>
  Claim C9 says that when the native receive reports \<open>ERROR_INSUFFICIENT_BUFFER\<close>,
  \<open>ReceiveFrame\<close> does not fail and returns normally. It does not fail with a transport
  error, but it still classifies the wire type that the call reported: with an
  unrecognised wire type it throws.
\<close>

theorem insufficient_buffer_unknown_type:
  "recv_err (fst (WinHttpWebSocketReceive sim_api
       (sim_world\<lparr>sim_wire := [(UNRECOGNIZED_BUFFER_TYPE 9, replicate 129 1)]\<rparr>) (Some 1) 128))
     = ERROR_INSUFFICIENT_BUFFER sim_api
   \<and> fst (ReceiveFrame sim_api ApplicationContext
            (sim_open (sim_world\<lparr>sim_wire := [(UNRECOGNIZED_BUFFER_TYPE 9, replicate 129 1)]\<rparr>)))
       = Inl (runtime_error ''Unknown frame type.'')"
  by (simp add: ReceiveFrame_def ThrowIfCancelled_def emit_def sim_api_def sim_open_def
      sim_world_def sim_receive_def sim_block_def)

text \<open>
  Claim C9, as the code has it. When the native receive reports
  \<open>ERROR_INSUFFICIENT_BUFFER\<close>, \<open>ReceiveFrame\<close> throws no transport error and makes no
  second native receive (the log has the one call). It classifies the reported wire type:
  for a recognised type it returns normally, for an unrecognised one it throws
  \<open>Unknown frame type.\<close>. The vector it returns has the reported byte count; its first 128
  bytes are a prefix of the staging buffer (at most the first 128 bytes that the native
  call stored, zero beyond them) and every byte after the first 128 is zero: the frame is
  truncated to at most its first 128 payload bytes.
\<close>

theorem insufficient_buffer_truncates:
  assumes "\<not> IsCancelled (flag_set api (world s)) (now api (world s)) context"
    and "WinHttpWebSocketReceive api (world s) (m_socketHandle s) 128 = (out, w)"
    and "recv_err out = ERROR_INSUFFICIENT_BUFFER api"
  shows "ReceiveFrame api context s
           = (case receive_frame_type (recv_buffer_type out) of
                None \<Rightarrow> Inl (runtime_error ''Unknown frame type.'')
              | Some frameTypeReceived \<Rightarrow>
                  Inr (frameTypeReceived,
                       resize (unat (recv_bytes_read out))
                         (store (recv_data out) (replicate 128 0))),
              s\<lparr>world := w,
                events := events s @
                  [EvThrowIfCancelled, EvLock m_receiveMutex,
                   EvWebSocketReceive (m_socketHandle s) 128, EvUnlock m_receiveMutex]\<rparr>)
         \<and> length (resize (unat (recv_bytes_read out))
                     (store (recv_data out) (replicate 128 0)))
             = unat (recv_bytes_read out)
         \<and> take 128 (resize (unat (recv_bytes_read out))
                       (store (recv_data out) (replicate 128 0)))
             = take (unat (recv_bytes_read out))
                 (take 128 (recv_data out) @ replicate (128 - length (recv_data out)) 0)
         \<and> drop 128 (resize (unat (recv_bytes_read out))
                       (store (recv_data out) (replicate 128 0)))
             = replicate (unat (recv_bytes_read out) - 128) 0"
proof -
  have run: "ReceiveFrame api context s
           = (case receive_frame_type (recv_buffer_type out) of
                None \<Rightarrow> Inl (runtime_error ''Unknown frame type.'')
              | Some frameTypeReceived \<Rightarrow>
                  Inr (frameTypeReceived,
                       resize (unat (recv_bytes_read out))
                         (store (recv_data out) (replicate 128 0))),
              s\<lparr>world := w,
                events := events s @
                  [EvThrowIfCancelled, EvLock m_receiveMutex,
                   EvWebSocketReceive (m_socketHandle s) 128, EvUnlock m_receiveMutex]\<rparr>)"
    by (simp add: ReceiveFrame_native [OF assms(1,2)] assms(3))
  have stored: "store (recv_data out) (replicate 128 0)
      = take 128 (recv_data out) @ replicate (128 - length (recv_data out)) 0"
    by (simp add: store_def)
  have len: "length (store (recv_data out) (replicate 128 (0 :: byte))) = 128"
    by (simp add: store_def)
  have front: "take 128 (resize (unat (recv_bytes_read out))
                       (store (recv_data out) (replicate 128 0)))
             = take (unat (recv_bytes_read out))
                 (take 128 (recv_data out) @ replicate (128 - length (recv_data out)) 0)"
    unfolding stored [symmetric] using len
    by (simp add: resize_def min_def)
  have tail: "drop 128 (resize (unat (recv_bytes_read out))
                       (store (recv_data out) (replicate 128 0)))
             = replicate (unat (recv_bytes_read out) - 128) 0"
    using len by (simp add: resize_def)
  show ?thesis
    using run front tail by (simp add: length_resize)
qed

theorem insufficient_buffer_truncates_witness:
  "ReceiveFrame sim_api ApplicationContext
     (sim_open (sim_world\<lparr>sim_wire :=
        [(WINHTTP_WEB_SOCKET_BINARY_MESSAGE_BUFFER_TYPE, replicate 129 1)]\<rparr>))
     = (Inr (FrameTypeBinary, replicate 128 1),
        \<lparr>m_socketHandle = Some 1, world = sim_world\<lparr>sim_clock := 11\<rparr>,
         events = [EvThrowIfCancelled, EvLock m_receiveMutex, EvWebSocketReceive (Some 1) 128,
                   EvUnlock m_receiveMutex]\<rparr>)"
proof -
  let ?w = "sim_world\<lparr>sim_wire :=
      [(WINHTTP_WEB_SOCKET_BINARY_MESSAGE_BUFFER_TYPE, replicate 129 1)]\<rparr>"
  let ?out = "\<lparr>recv_err = 122, recv_data = replicate 128 1, recv_bytes_read = 128,
      recv_buffer_type = WINHTTP_WEB_SOCKET_BINARY_MESSAGE_BUFFER_TYPE\<rparr>"
  have a: "\<not> IsCancelled (flag_set sim_api (world (sim_open ?w)))
      (now sim_api (world (sim_open ?w))) ApplicationContext"
    by simp
  have b: "WinHttpWebSocketReceive sim_api (world (sim_open ?w)) (m_socketHandle (sim_open ?w))
      128 = (?out, sim_world\<lparr>sim_clock := 11\<rparr>)"
    by (simp add: sim_api_def sim_open_def sim_receive_def sim_block_def sim_world_def)
  have c: "recv_err ?out = ERROR_INSUFFICIENT_BUFFER sim_api"
    by (simp add: sim_api_def)
  show ?thesis
    using insufficient_buffer_truncates [OF a b c]
    by (simp add: sim_open_def store_def resize_def)
qed

end
